theory Spec2Isabelle
  imports Complex_Main
begin

section \<open>Numbers, clocks and the persistent store\<close>

text \<open>
  The backend is TypeScript. A JavaScript \<open>number\<close> is modelled as a \<^typ>\<open>real\<close>:
  arithmetic is exact, so the binary rounding of IEEE-754 doubles (and the values NaN and
  Infinity) is outside the model. Array lengths and loop counters are integers.
  Counts, lengths, totals taken from a length and timestamps are integers far below 2 to
  the power 53, which doubles hold exactly. A value reached through a division or a
  decimal fraction (\<open>occupancyRate\<close>, the per-point \<open>confidence\<close>, \<open>predictedOccupancy\<close> and
  \<open>predictedAvailable\<close>) is the exact one here and can differ from the program's double in
  the last place, or by one unit of the rounded result at a tie: 23 occupied spaces of 160
  give 14.38 here and 14.37 in the program, and the first confidence is 0.8 here and
  0.7999999999999999 in the program. What these fields are worth, digit for digit, is
  therefore not among the results below.
  A \<open>Date\<close> is its epoch value in milliseconds (an \<^typ>\<open>int\<close>); the ISO-8601 text produced
  by \<open>toISOString()\<close> and read back by \<open>new Date(text)\<close> denotes the same millisecond, so a
  timestamp field holds that integer.
\<close>

definition Math_round :: "real \<Rightarrow> real" where
  \<comment> \<open>\<open>Math.round\<close>: the nearest integer, a tie going towards plus infinity.\<close>
  "Math_round x = of_int \<lfloor>x + 1 / 2\<rfloor>"

text \<open>
  Local time follows ECMAScript: \<open>LocalTime(t) = t + LocalTZA(t)\<close>, where the host's
  zone adjustment \<open>tza\<close> (offset and daylight saving, in milliseconds) is a parameter.
\<close>

type_synonym tza = "int \<Rightarrow> int"

definition getHours :: "tza \<Rightarrow> int \<Rightarrow> nat" where
  "getHours z t = nat (((t + z t) div 3600000) mod 24)"

definition getMinutes :: "tza \<Rightarrow> int \<Rightarrow> nat" where
  "getMinutes z t = nat (((t + z t) div 60000) mod 60)"

definition getDay :: "tza \<Rightarrow> int \<Rightarrow> nat" where
  \<comment> \<open>day 0 of the epoch was a Thursday (4)\<close>
  "getDay z t = nat (((t + z t) div 86400000 + 4) mod 7)"

definition UTC :: tza where
  "UTC = (\<lambda>t. 0)"

datatype spaceStatus = available | occupied | reserved | offline

record parkingSpace =
  nodeId :: string
  lotId_s :: string
  status :: spaceStatus
  lastUpdate_s :: int
  spaceNumber :: "string option"

text \<open>
  Of \<open>ParkingLot\<close> the model keeps the fields the lot service reads or writes; the others
  (location, zones, amenities, ...) are copied unchanged by the object spread \<open>...lot\<close>.
\<close>

record parkingLot =
  lotId :: string
  name :: string
  totalSpaces :: real
  availableSpaces :: real
  occupiedSpaces :: real
  offlineSpaces :: real
  occupancyRate :: real
  lastUpdate :: int

text \<open>
  The two DynamoDB tables. A store that cannot be reached (every \<open>send\<close> rejects) is
  \<open>None\<close>; the rejection is the error \<open>DynamoError\<close>. \<open>TypeError\<close> is JavaScript's own,
  raised by a property read on \<open>undefined\<close>.
\<close>

record tables =
  parkingLotTable :: "parkingLot list"
  parkingSpaceTable :: "parkingSpace list"

type_synonym dynamoDB = "tables option"

datatype error = DynamoError | TypeError

section \<open>The lot service\<close>

subsection \<open>Reading lots\<close>

definition getSpacesByLotId :: "dynamoDB \<Rightarrow> string \<Rightarrow> error + parkingSpace list" where
  "getSpacesByLotId db lid =
     (case db of
        None \<Rightarrow> Inl DynamoError
      | Some t \<Rightarrow> Inr (filter (\<lambda>s. lotId_s s = lid) (parkingSpaceTable t)))"

definition lotWithOccupancy :: "parkingLot \<Rightarrow> parkingSpace list \<Rightarrow> int \<Rightarrow> parkingLot" where
  \<comment> \<open>the object built from \<open>lot\<close> and \<open>spaces\<close> in \<open>getLotById\<close> and, with the same text,
      in \<open>getAllLots\<close>; \<open>now\<close> is the clock read by \<open>new Date()\<close>\<close>
  "lotWithOccupancy lot spaces now =
     (let availableSpaces' = real (length (filter (\<lambda>s. status s = available) spaces));
          occupiedSpaces' = real (length (filter (\<lambda>s. status s = occupied) spaces));
          offlineSpaces' = real (length (filter (\<lambda>s. status s = offline) spaces));
          totalSpaces' = (if length spaces \<noteq> 0 then real (length spaces) else totalSpaces lot)
      in lot\<lparr> totalSpaces := totalSpaces',
               availableSpaces := availableSpaces',
               occupiedSpaces := occupiedSpaces',
               offlineSpaces := offlineSpaces',
               occupancyRate :=
                 (if totalSpaces' > 0
                  then Math_round ((occupiedSpaces' / totalSpaces') * 100 * 100) / 100
                  else 0),
               lastUpdate := now \<rparr>)"

definition getLotById :: "dynamoDB \<Rightarrow> int \<Rightarrow> string \<Rightarrow> error + parkingLot option" where
  "getLotById db now lid =
     (case db of
        None \<Rightarrow> Inl DynamoError
      | Some t \<Rightarrow>
          (case find (\<lambda>l. lotId l = lid) (parkingLotTable t) of
             None \<Rightarrow> Inr None
           | Some lot \<Rightarrow>
               (case getSpacesByLotId db lid of
                  Inl e \<Rightarrow> Inl e
                | Inr spaces \<Rightarrow> Inr (Some (lotWithOccupancy lot spaces now)))))"

definition MOCK_LOTS :: "int \<Rightarrow> parkingLot list" where
  \<comment> \<open>the argument is the time the module was loaded\<close>
  "MOCK_LOTS loaded =
     [\<lparr> lotId = ''lot-1'', name = ''Lot A - Student Center'', totalSpaces = 150,
        availableSpaces = 42, occupiedSpaces = 103, offlineSpaces = 5,
        occupancyRate = 68.7, lastUpdate = loaded \<rparr>,
      \<lparr> lotId = ''lot-2'', name = ''Lot B - Engineering Building'', totalSpaces = 200,
        availableSpaces = 15, occupiedSpaces = 180, offlineSpaces = 5,
        occupancyRate = 90.0, lastUpdate = loaded \<rparr>,
      \<lparr> lotId = ''lot-3'', name = ''Lot C - Library'', totalSpaces = 100,
        availableSpaces = 67, occupiedSpaces = 30, offlineSpaces = 3,
        occupancyRate = 30.0, lastUpdate = loaded \<rparr>]"

definition getAllLots :: "bool \<Rightarrow> dynamoDB \<Rightarrow> int \<Rightarrow> int \<Rightarrow> parkingLot list \<times> bool" where
  \<comment> \<open>takes and returns the private flag \<open>useMockData\<close>\<close>
  "getAllLots useMockData db loaded now =
     (if useMockData then (map (\<lambda>lot. lot\<lparr> lastUpdate := now \<rparr>) (MOCK_LOTS loaded), True)
      else
        (case db of
           None \<Rightarrow> (map (\<lambda>lot. lot\<lparr> lastUpdate := now \<rparr>) (MOCK_LOTS loaded), True)
         | Some t \<Rightarrow>
             (map (\<lambda>lot. lotWithOccupancy lot
                      (filter (\<lambda>s. lotId_s s = lotId lot) (parkingSpaceTable t)) now)
                (parkingLotTable t), False)))"

subsection \<open>Predictions\<close>

datatype trend = INCREASING | DECREASING | STABLE

record predictionDataPoint =
  timestamp :: int
  predictedOccupancy :: real
  predictedAvailable :: real
  confidence :: real
  trend :: trend

record factors =
  dayOfWeek :: string
  timeOfDay :: string
  specialEvents :: "string list"
  weather :: string

record occupancyPrediction =
  lotId_p :: string
  currentOccupancy :: real
  currentAvailable :: real
  predictions :: "predictionDataPoint list"
  confidence_p :: real
  generatedAt :: int
  factors :: factors
  recommendation :: string

definition basePrediction :: "real \<Rightarrow> nat \<Rightarrow> real" where
  \<comment> \<open>the variable \<open>basePrediction\<close> after the chain of \<open>if\<close>s on the local hour\<close>
  "basePrediction rate hour =
     (if hour \<ge> 9 \<and> hour \<le> 11 then min 95 (rate + 15)
      else if hour \<ge> 14 \<and> hour \<le> 16 then min 95 (rate + 20)
      else if hour \<ge> 17 \<and> hour \<le> 19 then max 20 (rate - 15)
      else rate)"

definition variance :: "(int \<Rightarrow> real) \<Rightarrow> int \<Rightarrow> real" where
  \<comment> \<open>\<open>random i\<close> is what the call of \<open>Math.random()\<close> in iteration \<open>i\<close> returns\<close>
  "variance random i = (random i - 0.5) * 10"

definition predictedOccupancy_raw :: "tza \<Rightarrow> parkingLot \<Rightarrow> int \<Rightarrow> (int \<Rightarrow> real) \<Rightarrow> int \<Rightarrow> real" where
  \<comment> \<open>the local variable \<open>predictedOccupancy\<close> of iteration \<open>i\<close>, before it is rounded
      for the pushed point\<close>
  "predictedOccupancy_raw z lot now random i =
     (let predictionTime = now + i * 60 * 60 * 1000;
          hour = getHours z predictionTime
      in max 0 (min 100 (basePrediction (occupancyRate lot) hour + variance random i)))"

definition pushPrediction ::
  "tza \<Rightarrow> parkingLot \<Rightarrow> int \<Rightarrow> (int \<Rightarrow> real) \<Rightarrow> predictionDataPoint list \<Rightarrow> int
   \<Rightarrow> predictionDataPoint list" where
  \<comment> \<open>one iteration of the \<open>for\<close> loop of \<open>getPrediction\<close>\<close>
  "pushPrediction z lot now random predictions' i =
     (let predictionTime = now + i * 60 * 60 * 1000;
          predictedOccupancy' = predictedOccupancy_raw z lot now random i;
          predictedAvailable' = Math_round (totalSpaces lot * (1 - predictedOccupancy' / 100));
          trend' =
            (if length predictions' > 0 then
               (let lastPrediction = predictedOccupancy (predictions' ! (length predictions' - 1))
                in if predictedOccupancy' > lastPrediction + 3 then INCREASING
                   else if predictedOccupancy' < lastPrediction - 3 then DECREASING
                   else STABLE)
             else STABLE)
      in predictions' @
           [\<lparr> timestamp = predictionTime,
              predictedOccupancy = Math_round (predictedOccupancy' * 10) / 10,
              predictedAvailable = predictedAvailable',
              confidence = 0.85 - (of_int i * 0.05),
              trend = trend' \<rparr>])"

definition predictionSeries ::
  "tza \<Rightarrow> parkingLot \<Rightarrow> int \<Rightarrow> (int \<Rightarrow> real) \<Rightarrow> int \<Rightarrow> predictionDataPoint list" where
  \<comment> \<open>\<open>for (let i = 1; i <= hours; i++)\<close> from the empty array\<close>
  "predictionSeries z lot now random hours =
     foldl (pushPrediction z lot now random) [] [1..hours]"

fun toString :: "nat \<Rightarrow> string" where
  \<comment> \<open>\<open>Number.prototype.toString\<close> on a natural number: its decimal digits\<close>
  "toString n =
     (if n < 10 then [''0123456789'' ! n]
      else toString (n div 10) @ [''0123456789'' ! (n mod 10)])"

declare toString.simps [simp del]

definition padStart :: "nat \<Rightarrow> char \<Rightarrow> string \<Rightarrow> string" where
  "padStart n c s = replicate (n - length s) c @ s"

definition generateRecommendation ::
  "tza \<Rightarrow> predictionDataPoint list \<Rightarrow> parkingLot \<Rightarrow> error + string" where
  \<comment> \<open>\<open>reduce\<close> starts from \<open>predictions[0]\<close>, which is \<open>undefined\<close> for an empty array;
      reading \<open>predictedOccupancy\<close> of it throws\<close>
  "generateRecommendation z predictions' lot =
     (case predictions' of
        [] \<Rightarrow> Inl TypeError
      | p0 # _ \<Rightarrow>
          (let peakPrediction =
                 foldl (\<lambda>max' p. if predictedOccupancy p > predictedOccupancy max' then p else max')
                   p0 predictions'
           in if predictedOccupancy peakPrediction > 85 then
                (let peakTime = timestamp peakPrediction;
                     hours = getHours z peakTime;
                     minutes = getMinutes z peakTime;
                     timeStr = toString (if hours > 12 then hours - 12 else hours) @ '':''
                               @ padStart 2 CHR ''0'' (toString minutes) @ '' ''
                               @ (if hours \<ge> 12 then ''PM'' else ''AM'')
                 in Inr (''High demand expected around '' @ timeStr
                         @ ''. Consider arriving earlier for better availability.''))
              else if availableSpaces lot < 10 then
                Inr ''Limited spaces available now. Consider alternative lots if possible.''
              else Inr ''Good availability expected. No concerns at this time.''))"

definition dayNames :: "string list" where
  "dayNames = [''Sunday'', ''Monday'', ''Tuesday'', ''Wednesday'', ''Thursday'', ''Friday'',
               ''Saturday'']"

definition getPrediction ::
  "tza \<Rightarrow> dynamoDB \<Rightarrow> int \<Rightarrow> int \<Rightarrow> (int \<Rightarrow> real) \<Rightarrow> string \<Rightarrow> int option
   \<Rightarrow> error + occupancyPrediction option" where
  \<comment> \<open>\<open>tRead\<close> is the clock during the lot read, \<open>now\<close> the one read by \<open>new Date()\<close>
      afterwards; an omitted \<open>hours\<close> is \<open>None\<close>\<close>
  "getPrediction z db tRead now random lid hoursArg =
     (let hours = (case hoursArg of None \<Rightarrow> 3 | Some h \<Rightarrow> h)
      in case getLotById db tRead lid of
           Inl e \<Rightarrow> Inl e
         | Inr None \<Rightarrow> Inr None
         | Inr (Some lot) \<Rightarrow>
             (let predictions' = predictionSeries z lot now random hours;
                  timeOfDay' = (if getHours z now < 12 then ''Morning''
                                else if getHours z now < 17 then ''Afternoon'' else ''Evening'')
              in case generateRecommendation z predictions' lot of
                   Inl e \<Rightarrow> Inl e
                 | Inr text \<Rightarrow>
                     Inr (Some \<lparr> lotId_p = lid,
                                 currentOccupancy = occupancyRate lot,
                                 currentAvailable = availableSpaces lot,
                                 predictions = predictions',
                                 confidence_p = 0.85,
                                 generatedAt = now,
                                 factors = \<lparr> dayOfWeek = dayNames ! getDay z now,
                                             timeOfDay = timeOfDay',
                                             specialEvents = [],
                                             weather = ''Clear'' \<rparr>,
                                 recommendation = text \<rparr>)))"

section \<open>The route \<open>GET /lots/:lotId/prediction\<close>\<close>

definition isWhiteSpace :: "char \<Rightarrow> bool" where
  \<comment> \<open>the ASCII members of \<open>StrWhiteSpaceChar\<close>\<close>
  "isWhiteSpace c \<longleftrightarrow> c \<in> set [CHR '' '', CHR 0x09, CHR 0x0A, CHR 0x0B, CHR 0x0C, CHR 0x0D]"

definition digitValue :: "char \<Rightarrow> nat option" where
  "digitValue c =
     (let n = (of_char c :: nat)
      in if 48 \<le> n \<and> n \<le> 57 then Some (n - 48)
         else if 97 \<le> n \<and> n \<le> 122 then Some (n - 87)
         else if 65 \<le> n \<and> n \<le> 90 then Some (n - 55)
         else None)"

definition isDigit :: "nat \<Rightarrow> char \<Rightarrow> bool" where
  "isDigit R c = (case digitValue c of None \<Rightarrow> False | Some v \<Rightarrow> v < R)"

definition parseInt :: "string \<Rightarrow> int option" where
  \<comment> \<open>\<open>parseInt(string)\<close> with no radix; \<open>None\<close> is NaN\<close>
  "parseInt inputString =
     (let S = dropWhile isWhiteSpace inputString;
          sign = (if S \<noteq> [] \<and> hd S = CHR ''-'' then - 1 else 1 :: int);
          S1 = (if S \<noteq> [] \<and> (hd S = CHR ''+'' \<or> hd S = CHR ''-'') then tl S else S);
          hex = (take 2 S1 = ''0x'' \<or> take 2 S1 = ''0X'');
          R = (if hex then 16 else 10);
          S2 = (if hex then drop 2 S1 else S1);
          Z = takeWhile (isDigit R) S2
      in if Z = [] then None
         else Some (sign * int (foldl (\<lambda>acc c. acc * R + the (digitValue c)) 0 Z)))"

record 'a apiResponse =
  httpStatus :: nat
  success :: bool
  data :: "'a option"
  errorCode :: "string option"

definition predictionRoute ::
  "tza \<Rightarrow> dynamoDB \<Rightarrow> int \<Rightarrow> int \<Rightarrow> (int \<Rightarrow> real) \<Rightarrow> string \<Rightarrow> string option
   \<Rightarrow> occupancyPrediction apiResponse \<times> int list" where
  \<comment> \<open>the handler of \<open>router.get('/:lotId/prediction')\<close>; \<open>query_hours\<close> is
      \<open>req.query.hours\<close> (\<open>None\<close> when the parameter is absent, and \<open>parseInt\<close> then reads the
      text \<open>undefined\<close>). The second component lists the \<open>hours\<close> arguments of the calls of
      \<open>lotService.getPrediction\<close> made by the handler.\<close>
  "predictionRoute z db tRead now random lid query_hours =
     (let hours = (case parseInt (case query_hours of None \<Rightarrow> ''undefined'' | Some s \<Rightarrow> s) of
                     None \<Rightarrow> 3
                   | Some n \<Rightarrow> if n = 0 then 3 else n)
      in if hours < 1 \<or> hours > 12 then
           (\<lparr> httpStatus = 400, success = False, data = None,
              errorCode = Some ''VALIDATION_ERROR'' \<rparr>, [])
         else
           (case getPrediction z db tRead now random lid (Some hours) of
              Inl e \<Rightarrow>
                (\<lparr> httpStatus = 500, success = False, data = None,
                   errorCode = Some ''INTERNAL_ERROR'' \<rparr>, [hours])
            | Inr None \<Rightarrow>
                (\<lparr> httpStatus = 404, success = False, data = None,
                   errorCode = Some ''LOT_NOT_FOUND'' \<rparr>, [hours])
            | Inr (Some prediction) \<Rightarrow>
                (\<lparr> httpStatus = 200, success = True, data = Some prediction,
                   errorCode = None \<rparr>, [hours])))"

section \<open>The vocabulary of the specification\<close>

text \<open>Rounding to \<open>d\<close> decimals: the nearest multiple of \<open>10\<close> to the power \<open>-d\<close>, a tie
  going up.\<close>

definition round_to :: "nat \<Rightarrow> real \<Rightarrow> real" where
  "round_to d x = of_int \<lfloor>x * 10 ^ d + 1 / 2\<rfloor> / 10 ^ d"

definition reservedCount :: "parkingSpace list \<Rightarrow> nat" where
  "reservedCount spaces = length (filter (\<lambda>s. status s = reserved) spaces)"

text \<open>The 12-hour clock \<open>h:mm AM/PM\<close>: its hours run 12, 1, ..., 11, so the hour after
  midnight and the hour after noon are both written 12.\<close>

definition clock12 :: "nat \<Rightarrow> nat \<Rightarrow> string" where
  "clock12 h m = toString (if h mod 12 = 0 then 12 else h mod 12) @ '':''
                 @ padStart 2 CHR ''0'' (toString m) @ '' ''
                 @ (if h < 12 then ''AM'' else ''PM'')"

text \<open>Position \<open>k\<close> holds the peak of a series: the first point that attains the maximal
  predicted occupancy.\<close>

definition isPeak :: "predictionDataPoint list \<Rightarrow> nat \<Rightarrow> bool" where
  "isPeak ps k \<longleftrightarrow>
     k < length ps
     \<and> (\<forall>j < length ps. predictedOccupancy (ps ! j) \<le> predictedOccupancy (ps ! k))
     \<and> (\<forall>j < k. predictedOccupancy (ps ! j) < predictedOccupancy (ps ! k))"

definition recommendation_spec :: "tza \<Rightarrow> predictionDataPoint \<Rightarrow> parkingLot \<Rightarrow> string" where
  \<comment> \<open>the recommendation the specification derives from the peak point and the lot\<close>
  "recommendation_spec z peakPrediction lot =
     (if predictedOccupancy peakPrediction > 85 then
        ''High demand expected around ''
        @ clock12 (getHours z (timestamp peakPrediction)) (getMinutes z (timestamp peakPrediction))
        @ ''. Consider arriving earlier for better availability.''
      else if availableSpaces lot < 10 then
        ''Limited spaces available now. Consider alternative lots if possible.''
      else ''Good availability expected. No concerns at this time.'')"

text \<open>The decimal text of an integer, as a client writes it in the query string.\<close>

definition showInt :: "int \<Rightarrow> string" where
  "showInt n = (if n < 0 then CHR ''-'' # toString (nat (- n)) else toString (nat n))"

section \<open>Sample inputs\<close>

definition lotA :: parkingLot where
  \<comment> \<open>a stored lot record with a static capacity of 150\<close>
  "lotA = \<lparr> lotId = ''lot-1'', name = ''Lot A - Student Center'', totalSpaces = 150,
            availableSpaces = 0, occupiedSpaces = 0, offlineSpaces = 0,
            occupancyRate = 0, lastUpdate = 0 \<rparr>"

definition spaceA :: "string \<Rightarrow> spaceStatus \<Rightarrow> parkingSpace" where
  \<comment> \<open>a space record of that lot\<close>
  "spaceA n st = \<lparr> nodeId = n, lotId_s = ''lot-1'', status = st, lastUpdate_s = 0,
                   spaceNumber = None \<rparr>"

definition busySpaces :: "parkingSpace list" where
  \<comment> \<open>nine occupied spaces and a free one: an occupancy rate of 90\<close>
  "busySpaces = [spaceA ''n1'' occupied, spaceA ''n2'' occupied, spaceA ''n3'' occupied,
     spaceA ''n4'' occupied, spaceA ''n5'' occupied, spaceA ''n6'' occupied,
     spaceA ''n7'' occupied, spaceA ''n8'' occupied, spaceA ''n9'' occupied,
     spaceA ''n10'' available]"

definition dbA :: "parkingSpace list \<Rightarrow> dynamoDB" where
  \<comment> \<open>a reachable store holding \<open>lotA\<close> and the given space records\<close>
  "dbA spaces = Some \<lparr> parkingLotTable = [lotA], parkingSpaceTable = spaces \<rparr>"

definition draws :: "real list \<Rightarrow> int \<Rightarrow> real" where
  \<comment> \<open>a random source: iteration \<open>i\<close> draws the \<open>i\<close>-th listed value, and 0.5 beyond the list\<close>
  "draws rs i = (if 1 \<le> i \<and> nat (i - 1) < length rs then rs ! nat (i - 1) else 1 / 2)"

section \<open>Aggregation\<close>

lemma round_to_is_multiple: "\<exists>k::int. round_to d x * 10 ^ d = of_int k"
  by (simp add: round_to_def)

lemma round_to_nearest: "\<bar>round_to d x - x\<bar> \<le> (1 / 2) / 10 ^ d"
proof -
  let ?p = "(10::real) ^ d"
  have p: "0 < ?p" by simp
  have "\<bar>of_int \<lfloor>x * ?p + 1 / 2\<rfloor> - x * ?p\<bar> \<le> 1 / 2"
    by linarith
  moreover have "of_int \<lfloor>x * ?p + 1 / 2\<rfloor> - x * ?p = (round_to d x - x) * ?p"
    by (simp add: round_to_def field_simps)
  ultimately have "\<bar>round_to d x - x\<bar> * ?p \<le> 1 / 2"
    by (simp add: abs_mult)
  then show ?thesis using p by (simp add: field_simps)
qed

lemma count_by_status:
  "length (filter (\<lambda>s. status s = available) spaces)
   + length (filter (\<lambda>s. status s = occupied) spaces)
   + length (filter (\<lambda>s. status s = offline) spaces)
   + reservedCount spaces = length spaces"
  unfolding reservedCount_def
proof (induction spaces)
  case Nil
  show ?case by simp
next
  case (Cons s spaces)
  then show ?case by (cases "status s") simp_all
qed

lemma getLotById_Some:
  assumes "getLotById db now lid = Inr (Some l)"
  shows "\<exists>t lot. db = Some t \<and> find (\<lambda>l. lotId l = lid) (parkingLotTable t) = Some lot
           \<and> l = lotWithOccupancy lot (filter (\<lambda>s. lotId_s s = lid) (parkingSpaceTable t)) now"
  using assms
  by (auto simp: getLotById_def getSpacesByLotId_def split: option.splits sum.splits)

text \<open>
  Claim C1, as the code has it. The three tallies of the aggregated lot leave the reserved
  spaces out: for a non-empty list of space records, available + occupied + offline plus
  the number of reserved spaces is \<open>totalSpaces\<close> (the length of the list); for the empty
  list the three tallies are zero and \<open>totalSpaces\<close> is the static capacity of the lot.
\<close>

theorem C1_counts_and_total:
  "(spaces \<noteq> [] \<longrightarrow>
      availableSpaces (lotWithOccupancy lot spaces now)
      + occupiedSpaces (lotWithOccupancy lot spaces now)
      + offlineSpaces (lotWithOccupancy lot spaces now)
      + real (reservedCount spaces) = totalSpaces (lotWithOccupancy lot spaces now)
      \<and> totalSpaces (lotWithOccupancy lot spaces now) = real (length spaces))
   \<and> (spaces = [] \<longrightarrow>
      availableSpaces (lotWithOccupancy lot spaces now) = 0
      \<and> occupiedSpaces (lotWithOccupancy lot spaces now) = 0
      \<and> offlineSpaces (lotWithOccupancy lot spaces now) = 0
      \<and> totalSpaces (lotWithOccupancy lot spaces now) = totalSpaces lot)"
proof -
  have "real (length (filter (\<lambda>s. status s = available) spaces)
              + length (filter (\<lambda>s. status s = occupied) spaces)
              + length (filter (\<lambda>s. status s = offline) spaces)
              + reservedCount spaces) = real (length spaces)"
    by (simp only: count_by_status)
  then show ?thesis
    by (simp add: lotWithOccupancy_def Let_def)
qed

theorem C1_counts_and_total_witness:
  "[spaceA ''n1'' occupied, spaceA ''n2'' reserved] \<noteq> []
   \<and> availableSpaces (lotWithOccupancy lotA [spaceA ''n1'' occupied, spaceA ''n2'' reserved] 7)
     + occupiedSpaces (lotWithOccupancy lotA [spaceA ''n1'' occupied, spaceA ''n2'' reserved] 7)
     + offlineSpaces (lotWithOccupancy lotA [spaceA ''n1'' occupied, spaceA ''n2'' reserved] 7)
     + 1 = 2
   \<and> totalSpaces (lotWithOccupancy lotA [spaceA ''n1'' occupied, spaceA ''n2'' reserved] 7) = 2
   \<and> availableSpaces (lotWithOccupancy lotA [] 7) = 0
   \<and> totalSpaces (lotWithOccupancy lotA [] 7) = 150"
  using C1_counts_and_total [of "[spaceA ''n1'' occupied, spaceA ''n2'' reserved]" lotA 7]
    C1_counts_and_total [of "[]" lotA 7]
  by (simp add: reservedCount_def spaceA_def lotA_def)

text \<open>
  Claim C1 as stated fails: one reserved space gives tallies 0 + 0 + 0 against a total
  of 1, and the empty list gives 0 + 0 + 0 against the static capacity 150.
\<close>

theorem C1_counterexample:
  "availableSpaces (lotWithOccupancy lotA [spaceA ''n1'' reserved] 0)
   + occupiedSpaces (lotWithOccupancy lotA [spaceA ''n1'' reserved] 0)
   + offlineSpaces (lotWithOccupancy lotA [spaceA ''n1'' reserved] 0)
   \<noteq> totalSpaces (lotWithOccupancy lotA [spaceA ''n1'' reserved] 0)
   \<and> availableSpaces (lotWithOccupancy lotA [] 0)
     + occupiedSpaces (lotWithOccupancy lotA [] 0)
     + offlineSpaces (lotWithOccupancy lotA [] 0)
   \<noteq> totalSpaces (lotWithOccupancy lotA [] 0)"
  by (simp add: lotWithOccupancy_def lotA_def spaceA_def)

lemma getAllLots_aggregates:
  assumes "l \<in> set (fst (getAllLots False (Some t) loaded now))"
  shows "\<exists>lot spaces. l = lotWithOccupancy lot spaces now"
  using assms by (auto simp add: getAllLots_def)

section \<open>The prediction loop\<close>

lemma upto_1_Suc: "[1..int (Suc n)] = [1..int n] @ [int n + 1]"
proof -
  have "[1..int n + 1] = [1..int n + 1 - 1] @ [int n + 1]"
    by (rule upto_rec2) simp
  then show ?thesis by (simp add: add.commute)
qed

lemma predictionSeries_Suc:
  "predictionSeries z lot now random (int (Suc n))
   = pushPrediction z lot now random (predictionSeries z lot now random (int n)) (int n + 1)"
  unfolding predictionSeries_def upto_1_Suc by simp

lemma predictionSeries_0: "predictionSeries z lot now random 0 = []"
  by (simp add: predictionSeries_def)

lemma predictionSeries_nonpos: "h \<le> 0 \<Longrightarrow> predictionSeries z lot now random h = []"
  by (simp add: predictionSeries_def)

lemma length_pushPrediction:
  "length (pushPrediction z lot now random ps i) = Suc (length ps)"
  by (simp add: pushPrediction_def Let_def)

lemma pushPrediction_prefix:
  "k < length ps \<Longrightarrow> pushPrediction z lot now random ps i ! k = ps ! k"
  by (simp add: pushPrediction_def Let_def nth_append)

lemma length_predictionSeries_nat:
  "length (predictionSeries z lot now random (int n)) = n"
proof (induction n)
  case 0
  show ?case by (simp add: predictionSeries_0)
next
  case (Suc n)
  then show ?case by (simp only: predictionSeries_Suc length_pushPrediction)
qed

lemma length_predictionSeries:
  "length (predictionSeries z lot now random h) = nat h"
proof (cases "0 \<le> h")
  case True
  then have "h = int (nat h)" by simp
  then show ?thesis using length_predictionSeries_nat [of z lot now random "nat h"] by simp
next
  case False
  then show ?thesis by (simp add: predictionSeries_nonpos)
qed

lemma predictionSeries_nth_stable:
  "k < n \<Longrightarrow> predictionSeries z lot now random (int (n + m)) ! k
           = predictionSeries z lot now random (int n) ! k"
proof (induction m)
  case 0
  show ?case by simp
next
  case (Suc m)
  have "k < length (predictionSeries z lot now random (int (n + m)))"
    using Suc.prems by (simp only: length_predictionSeries_nat)
  then have "pushPrediction z lot now random (predictionSeries z lot now random (int (n + m)))
               (int (n + m) + 1) ! k
             = predictionSeries z lot now random (int (n + m)) ! k"
    by (rule pushPrediction_prefix)
  then have "predictionSeries z lot now random (int (Suc (n + m))) ! k
             = predictionSeries z lot now random (int (n + m)) ! k"
    by (simp only: predictionSeries_Suc)
  then show ?case using Suc by simp
qed

lemma predictionSeries_nth:
  assumes "k < nat h"
  shows "predictionSeries z lot now random h ! k
         = pushPrediction z lot now random (predictionSeries z lot now random (int k)) (int k + 1) ! k"
proof -
  from assms have "Suc k \<le> nat h" by simp
  then obtain m where "nat h = Suc k + m"
    using le_Suc_ex by blast
  moreover from assms have "h = int (nat h)" by simp
  ultimately have h: "h = int (Suc k + m)" by simp
  have "predictionSeries z lot now random h ! k = predictionSeries z lot now random (int (Suc k)) ! k"
    unfolding h by (rule predictionSeries_nth_stable) simp
  then show ?thesis by (simp only: predictionSeries_Suc)
qed

text \<open>
  The point pushed by an iteration, and with it every point of a series: point \<open>i\<close>
  (counted from 1) is built from the loop variables of iteration \<open>i\<close> and from the point
  stored before it.
\<close>

lemma pushPrediction_last:
  "pushPrediction z lot now random ps i ! length ps
   = \<lparr> timestamp = now + i * 60 * 60 * 1000,
       predictedOccupancy = Math_round (predictedOccupancy_raw z lot now random i * 10) / 10,
       predictedAvailable =
         Math_round (totalSpaces lot * (1 - predictedOccupancy_raw z lot now random i / 100)),
       confidence = 0.85 - (of_int i * 0.05),
       trend = (if length ps > 0 then
                  (if predictedOccupancy_raw z lot now random i
                        > predictedOccupancy (ps ! (length ps - 1)) + 3 then INCREASING
                   else if predictedOccupancy_raw z lot now random i
                        < predictedOccupancy (ps ! (length ps - 1)) - 3 then DECREASING
                   else STABLE)
                else STABLE) \<rparr>"
  by (simp add: pushPrediction_def Let_def)

lemma predictionSeries_point:
  assumes "1 \<le> i" and "i \<le> h"
  shows "predictionSeries z lot now random h ! nat (i - 1)
   = \<lparr> timestamp = now + i * 60 * 60 * 1000,
       predictedOccupancy = Math_round (predictedOccupancy_raw z lot now random i * 10) / 10,
       predictedAvailable =
         Math_round (totalSpaces lot * (1 - predictedOccupancy_raw z lot now random i / 100)),
       confidence = 0.85 - (of_int i * 0.05),
       trend = (if i > 1 then
                  (if predictedOccupancy_raw z lot now random i
                        > predictedOccupancy (predictionSeries z lot now random h ! nat (i - 2)) + 3
                   then INCREASING
                   else if predictedOccupancy_raw z lot now random i
                        < predictedOccupancy (predictionSeries z lot now random h ! nat (i - 2)) - 3
                   then DECREASING
                   else STABLE)
                else STABLE) \<rparr>"
proof -
  let ?k = "nat (i - 1)"
  let ?ps = "predictionSeries z lot now random (int ?k)"
  have k: "?k < nat h" and ik: "int ?k + 1 = i" using assms by simp_all
  have len: "length ?ps = ?k" by (rule length_predictionSeries_nat)
  have prev: "?ps ! (?k - 1) = predictionSeries z lot now random h ! nat (i - 2)" if "1 < i"
  proof -
    from that have eq: "?k = Suc (nat (i - 2)) + 0" by simp
    from that k have "nat (i - 2) < nat h" by simp
    from predictionSeries_nth [OF this] predictionSeries_nth [of "nat (i - 2)" "int ?k"] that
    have "predictionSeries z lot now random h ! nat (i - 2) = ?ps ! nat (i - 2)" by simp
    moreover from that have "?k - 1 = nat (i - 2)" by simp
    ultimately show ?thesis by simp
  qed
  have "predictionSeries z lot now random h ! ?k
        = pushPrediction z lot now random ?ps (int ?k + 1) ! length ?ps"
    using predictionSeries_nth [OF k] len by simp
  then have A: "predictionSeries z lot now random h ! ?k
        = pushPrediction z lot now random ?ps i ! length ?ps"
    by (simp only: ik)
  show ?thesis
  proof (cases "1 < i")
    case True
    then have "0 < length ?ps" using len by simp
    moreover have "?ps ! (length ?ps - 1) = predictionSeries z lot now random h ! nat (i - 2)"
      using prev [OF True] len by simp
    ultimately show ?thesis
      unfolding A pushPrediction_last using True by simp
  next
    case False
    then have "length ?ps = 0" using len assms by simp
    then show ?thesis
      unfolding A pushPrediction_last using False by simp
  qed
qed


text \<open>
  Evaluation of the model on sample inputs unfolds these definitions.
\<close>

lemmas eval_defs = predictionSeries_def pushPrediction_def predictedOccupancy_raw_def
  basePrediction_def variance_def getHours_def getMinutes_def getDay_def UTC_def Math_round_def
  lotWithOccupancy_def lotA_def spaceA_def draws_def Let_def upto.simps




text \<open>
  Claim C7, as the code has it. The timestamp of point \<open>i\<close> is the generation time plus
  \<open>i\<close> hours, to the millisecond: it keeps the minutes, seconds and milliseconds of the
  generation time and is a whole hour only if that time is.
\<close>

theorem C7_timestamp:
  assumes "1 \<le> i" and "i \<le> h"
  shows "timestamp (predictionSeries z lot now random h ! nat (i - 1)) = now + i * 3600000
         \<and> timestamp (predictionSeries z lot now random h ! nat (i - 1)) mod 3600000
           = now mod 3600000"
  by (simp add: predictionSeries_point [OF assms])

theorem C7_timestamp_witness:
  "timestamp (predictionSeries UTC (lotWithOccupancy lotA [] 0) 1807000 (draws [0.5, 0.5]) 2 ! 1)
   = 9007000"
  using C7_timestamp [of 2 2 UTC "lotWithOccupancy lotA [] 0" 1807000 "draws [0.5, 0.5]"]
  by simp

text \<open>
  Claim C7 as stated fails: generated 30 minutes and 7 seconds past the hour, the first
  point's timestamp has 7 in its seconds.
\<close>

theorem C7_counterexample:
  "(timestamp (predictionSeries UTC (lotWithOccupancy lotA [] 0) 1807000 (draws [0.5]) 1 ! 0)
      div 1000) mod 60 \<noteq> 0"
  by (simp add: eval_defs)

section \<open>The recommendation\<close>

lemma isPeak_unique:
  assumes "isPeak ps k" and "isPeak ps k'"
  shows "k = k'"
proof (rule ccontr)
  assume "k \<noteq> k'"
  then consider "k < k'" | "k' < k" by linarith
  then show False
  proof cases
    case 1
    then have "predictedOccupancy (ps ! k) < predictedOccupancy (ps ! k')"
      using assms(2) by (simp add: isPeak_def)
    moreover have "predictedOccupancy (ps ! k') \<le> predictedOccupancy (ps ! k)"
      using assms by (simp add: isPeak_def)
    ultimately show False by simp
  next
    case 2
    then have "predictedOccupancy (ps ! k') < predictedOccupancy (ps ! k)"
      using assms(1) by (simp add: isPeak_def)
    moreover have "predictedOccupancy (ps ! k) \<le> predictedOccupancy (ps ! k')"
      using assms by (simp add: isPeak_def)
    ultimately show False by simp
  qed
qed

lemma isPeak_snoc_new:
  assumes "isPeak l k" and "predictedOccupancy x > predictedOccupancy (l ! k)"
  shows "isPeak (l @ [x]) (length l)"
  unfolding isPeak_def
proof (intro conjI allI impI)
  show "length l < length (l @ [x])" by simp
next
  fix j assume "j < length (l @ [x])"
  then consider "j < length l" | "j = length l" by fastforce
  then show "predictedOccupancy ((l @ [x]) ! j) \<le> predictedOccupancy ((l @ [x]) ! length l)"
  proof cases
    case 1
    then have "predictedOccupancy (l ! j) \<le> predictedOccupancy (l ! k)"
      using assms(1) by (simp add: isPeak_def)
    then show ?thesis using 1 assms(2) by (simp add: nth_append)
  next
    case 2
    then show ?thesis by simp
  qed
next
  fix j assume j: "j < length l"
  then have "predictedOccupancy (l ! j) \<le> predictedOccupancy (l ! k)"
    using assms(1) by (simp add: isPeak_def)
  then show "predictedOccupancy ((l @ [x]) ! j) < predictedOccupancy ((l @ [x]) ! length l)"
    using j assms(2) by (simp add: nth_append)
qed

lemma isPeak_snoc_old:
  assumes "isPeak l k" and "\<not> predictedOccupancy x > predictedOccupancy (l ! k)"
  shows "isPeak (l @ [x]) k"
  unfolding isPeak_def
proof (intro conjI allI impI)
  show "k < length (l @ [x])" using assms(1) by (simp add: isPeak_def)
next
  have k: "k < length l" using assms(1) by (simp add: isPeak_def)
  fix j assume "j < length (l @ [x])"
  then consider "j < length l" | "j = length l" by fastforce
  then show "predictedOccupancy ((l @ [x]) ! j) \<le> predictedOccupancy ((l @ [x]) ! k)"
  proof cases
    case 1
    then have "predictedOccupancy (l ! j) \<le> predictedOccupancy (l ! k)"
      using assms(1) by (simp add: isPeak_def)
    then show ?thesis using 1 k by (simp add: nth_append)
  next
    case 2
    then show ?thesis using assms(2) k by (simp add: nth_append)
  qed
next
  have k: "k < length l" using assms(1) by (simp add: isPeak_def)
  fix j assume j: "j < k"
  then have "predictedOccupancy (l ! j) < predictedOccupancy (l ! k)"
    using assms(1) by (simp add: isPeak_def)
  then show "predictedOccupancy ((l @ [x]) ! j) < predictedOccupancy ((l @ [x]) ! k)"
    using j k by (simp add: nth_append)
qed

lemma foldl_peak:
  "\<exists>k. isPeak (a # xs) k
       \<and> foldl (\<lambda>max' p. if predictedOccupancy p > predictedOccupancy max' then p else max') a xs
         = (a # xs) ! k"
proof (induction xs rule: rev_induct)
  case Nil
  have "isPeak [a] 0" by (simp add: isPeak_def)
  then show ?case by auto
next
  case (snoc x xs)
  let ?step = "\<lambda>max' p. if predictedOccupancy p > predictedOccupancy max' then p else max'"
  from snoc obtain k where k: "isPeak (a # xs) k" and r: "foldl ?step a xs = (a # xs) ! k"
    by blast
  have klen: "k < length (a # xs)" using k by (simp add: isPeak_def)
  have eq: "a # xs @ [x] = (a # xs) @ [x]" by simp
  show ?case
  proof (cases "predictedOccupancy x > predictedOccupancy ((a # xs) ! k)")
    case True
    from isPeak_snoc_new [OF k True] have "isPeak (a # xs @ [x]) (length (a # xs))"
      by (simp only: eq)
    moreover have "foldl ?step a (xs @ [x]) = (a # xs @ [x]) ! length (a # xs)"
      unfolding eq nth_append_length using True r by simp
    ultimately show ?thesis by blast
  next
    case False
    from isPeak_snoc_old [OF k False] have "isPeak (a # xs @ [x]) k"
      by (simp only: eq)
    moreover have "((a # xs) @ [x]) ! k = (a # xs) ! k"
      using klen by (simp only: nth_append if_True)
    then have "foldl ?step a (xs @ [x]) = (a # xs @ [x]) ! k"
      unfolding eq using False r by simp
    ultimately show ?thesis by blast
  qed
qed

lemma timeStr_clock12:
  assumes "h \<noteq> 0" and "h < 24"
  shows "toString (if h > 12 then h - 12 else h) @ '':'' @ padStart 2 CHR ''0'' (toString m) @ '' ''
           @ (if h \<ge> 12 then ''PM'' else ''AM'')
         = clock12 h m"
proof -
  have "(if h > 12 then h - 12 else h) = (if h mod 12 = 0 then 12 else h mod 12)"
  proof (cases "h > 12")
    case True
    then have "h mod 12 = h - 12" using assms by (simp add: mod_if)
    then show ?thesis using True by simp
  next
    case False
    then show ?thesis using assms by (cases "h = 12") simp_all
  qed
  then show ?thesis by (simp add: clock12_def not_less)
qed

lemma getHours_less: "getHours z t < 24"
  by (simp add: getHours_def nat_less_iff)

text \<open>
  The reduction of \<open>generateRecommendation\<close> selects the peak, and the text returned is
  the specified one whenever the peak is at most 85 or its local hour is not 0.
\<close>

lemma generateRecommendation_peak:
  assumes "ps \<noteq> []"
  shows "\<exists>k. isPeak ps k \<and>
     generateRecommendation z ps lot =
       Inr (if predictedOccupancy (ps ! k) > 85 then
              ''High demand expected around ''
              @ (toString (if getHours z (timestamp (ps ! k)) > 12
                           then getHours z (timestamp (ps ! k)) - 12
                           else getHours z (timestamp (ps ! k))) @ '':''
                 @ padStart 2 CHR ''0'' (toString (getMinutes z (timestamp (ps ! k)))) @ '' ''
                 @ (if getHours z (timestamp (ps ! k)) \<ge> 12 then ''PM'' else ''AM''))
              @ ''. Consider arriving earlier for better availability.''
            else if availableSpaces lot < 10 then
              ''Limited spaces available now. Consider alternative lots if possible.''
            else ''Good availability expected. No concerns at this time.'')"
proof -
  from assms obtain p0 rest where ps: "ps = p0 # rest" by (cases ps) auto
  let ?step = "\<lambda>max' p. if predictedOccupancy p > predictedOccupancy max' then p else max'"
  obtain k where k: "isPeak ps k" and r: "foldl ?step p0 rest = ps ! k"
    using foldl_peak [of p0 rest] ps by blast
  have "foldl ?step p0 ps = ps ! k" using r ps by simp
  then show ?thesis using k
    by (auto simp add: generateRecommendation_def ps Let_def simp del: foldl_Cons)
qed

lemma generateRecommendation_spec:
  assumes "isPeak ps k"
    and "predictedOccupancy (ps ! k) > 85 \<longrightarrow> getHours z (timestamp (ps ! k)) \<noteq> 0"
  shows "generateRecommendation z ps lot = Inr (recommendation_spec z (ps ! k) lot)"
proof -
  from assms(1) have "ps \<noteq> []" by (auto simp: isPeak_def)
  from generateRecommendation_peak [OF this, of z lot] isPeak_unique [OF assms(1)]
  have g: "generateRecommendation z ps lot =
       Inr (if predictedOccupancy (ps ! k) > 85 then
              ''High demand expected around ''
              @ (toString (if getHours z (timestamp (ps ! k)) > 12
                           then getHours z (timestamp (ps ! k)) - 12
                           else getHours z (timestamp (ps ! k))) @ '':''
                 @ padStart 2 CHR ''0'' (toString (getMinutes z (timestamp (ps ! k)))) @ '' ''
                 @ (if getHours z (timestamp (ps ! k)) \<ge> 12 then ''PM'' else ''AM''))
              @ ''. Consider arriving earlier for better availability.''
            else if availableSpaces lot < 10 then
              ''Limited spaces available now. Consider alternative lots if possible.''
            else ''Good availability expected. No concerns at this time.'')"
    by blast
  show ?thesis
  proof (cases "predictedOccupancy (ps ! k) > 85")
    case True
    with assms(2) have "getHours z (timestamp (ps ! k)) \<noteq> 0" by simp
    from timeStr_clock12 [OF this getHours_less]
    show ?thesis unfolding g recommendation_spec_def using True by simp
  next
    case False
    then show ?thesis unfolding g recommendation_spec_def by simp
  qed
qed

lemma generateRecommendation_returns:
  "ps \<noteq> [] \<Longrightarrow> \<exists>msg. generateRecommendation z ps lot = Inr msg"
  using generateRecommendation_peak [of ps z lot] by blast

text \<open>
  Claim C5 at a peak in the hour after midnight. A lot at an occupancy of 90, asked at
  23:30 for one hour, has its peak at 00:30: the code writes the time as \<open>0:30 AM\<close>, the
  12-hour clock of the claim writes \<open>12:30 AM\<close>.
\<close>

theorem C5_midnight:
  "generateRecommendation UTC
     (predictionSeries UTC (lotWithOccupancy lotA busySpaces 0) 84600000 (draws [0.5]) 1)
     (lotWithOccupancy lotA busySpaces 0)
   = Inr ''High demand expected around 0:30 AM. Consider arriving earlier for better availability.''
   \<and> recommendation_spec UTC
     (predictionSeries UTC (lotWithOccupancy lotA busySpaces 0) 84600000 (draws [0.5]) 1 ! 0)
     (lotWithOccupancy lotA busySpaces 0)
   = ''High demand expected around 12:30 AM. Consider arriving earlier for better availability.''"
  by (simp add: generateRecommendation_def recommendation_spec_def clock12_def busySpaces_def
      eval_defs toString.simps padStart_def)

section \<open>The answer of \<open>getPrediction\<close>\<close>

lemma getPrediction_Some:
  assumes "getPrediction z db tRead now random lid hoursArg = Inr (Some P)"
  shows "\<exists>lot. getLotById db tRead lid = Inr (Some lot)
           \<and> predictions P
               = predictionSeries z lot now random (case hoursArg of None \<Rightarrow> 3 | Some h \<Rightarrow> h)
           \<and> generateRecommendation z (predictions P) lot = Inr (recommendation P)
           \<and> currentOccupancy P = occupancyRate lot
           \<and> currentAvailable P = availableSpaces lot
           \<and> confidence_p P = 0.85"
  using assms
  by (auto simp add: getPrediction_def Let_def split: sum.splits option.splits)

lemma getPrediction_returns:
  assumes "getLotById db tRead lid = Inr (Some lot)" and "1 \<le> h"
  shows "\<exists>P. getPrediction z db tRead now random lid (Some h) = Inr (Some P)
             \<and> predictions P = predictionSeries z lot now random h"
proof -
  have "length (predictionSeries z lot now random h) = nat h"
    by (rule length_predictionSeries)
  then have "predictionSeries z lot now random h \<noteq> []"
    using assms(2) by auto
  then obtain msg where
    "generateRecommendation z (predictionSeries z lot now random h) lot = Inr msg"
    using generateRecommendation_returns by blast
  then show ?thesis
    using assms(1) by (simp add: getPrediction_def Let_def)
qed

lemma getLotById_dbA:
  "getLotById (dbA spaces) t ''lot-1''
   = Inr (Some (lotWithOccupancy lotA (filter (\<lambda>s. lotId_s s = ''lot-1'') spaces) t))"
  by (simp add: getLotById_def getSpacesByLotId_def dbA_def lotA_def)

text \<open>
  Claim C9. For a lot that exists and a horizon \<open>h\<close> from 1 to 12, \<open>getPrediction\<close>
  returns a prediction whose series has exactly \<open>h\<close> points.
\<close>

theorem C9_series_length:
  assumes "getLotById db tRead lid = Inr (Some lot)" and "1 \<le> h" and "h \<le> 12"
  shows "\<exists>P. getPrediction z db tRead now random lid (Some h) = Inr (Some P)
             \<and> predictions P = predictionSeries z lot now random h
             \<and> int (length (predictions P)) = h"
proof -
  from getPrediction_returns [OF assms(1,2)] obtain P where
    P: "getPrediction z db tRead now random lid (Some h) = Inr (Some P)"
       "predictions P = predictionSeries z lot now random h"
    by blast
  have "int (length (predictions P)) = h"
    using assms(2) by (simp add: P(2) length_predictionSeries)
  with P show ?thesis by blast
qed

theorem C9_series_length_witness:
  "\<exists>P. getPrediction UTC (dbA []) 0 1800000 (draws [0.5, 0.5, 0.5]) ''lot-1'' (Some 3) = Inr (Some P)
       \<and> predictions P
          = predictionSeries UTC (lotWithOccupancy lotA [] 0) 1800000 (draws [0.5, 0.5, 0.5]) 3
       \<and> int (length (predictions P)) = 3"
  using C9_series_length [of "dbA []" 0 "''lot-1''" "lotWithOccupancy lotA [] 0" 3
      UTC 1800000 "draws [0.5, 0.5, 0.5]"]
  by (simp add: getLotById_dbA)

text \<open>
  Claim C10. The top-level confidence of every prediction returned is the constant 0.85,
  whatever the lot, the horizon and the points.
\<close>

theorem C10_overall_confidence:
  assumes "getPrediction z db tRead now random lid hoursArg = Inr (Some P)"
  shows "confidence_p P = 0.85"
  using getPrediction_Some [OF assms] by blast

theorem C10_overall_confidence_witness:
  "getPrediction UTC (dbA busySpaces) 0 84600000 (draws [0.5]) ''lot-1'' (Some 1)
   = Inr (Some \<lparr> lotId_p = ''lot-1'', currentOccupancy = 90, currentAvailable = 1,
          predictions = [\<lparr> timestamp = 88200000, predictedOccupancy = 90,
                           predictedAvailable = 1, confidence = 0.8, trend = STABLE \<rparr>],
          confidence_p = 0.85, generatedAt = 84600000,
          factors = \<lparr> dayOfWeek = ''Thursday'', timeOfDay = ''Evening'',
                      specialEvents = [], weather = ''Clear'' \<rparr>,
          recommendation = ''High demand expected around 0:30 AM. Consider arriving earlier for better availability.'' \<rparr>)
   \<and> confidence_p \<lparr> lotId_p = ''lot-1'', currentOccupancy = 90, currentAvailable = 1,
          predictions = [\<lparr> timestamp = 88200000, predictedOccupancy = 90,
                           predictedAvailable = 1, confidence = 0.8, trend = STABLE \<rparr>],
          confidence_p = 0.85, generatedAt = 84600000,
          factors = \<lparr> dayOfWeek = ''Thursday'', timeOfDay = ''Evening'',
                      specialEvents = [], weather = ''Clear'' \<rparr>,
          recommendation = ''High demand expected around 0:30 AM. Consider arriving earlier for better availability.'' \<rparr> = 0.85"
proof -
  have e: "getPrediction UTC (dbA busySpaces) 0 84600000 (draws [0.5]) ''lot-1'' (Some 1)
   = Inr (Some \<lparr> lotId_p = ''lot-1'', currentOccupancy = 90, currentAvailable = 1,
          predictions = [\<lparr> timestamp = 88200000, predictedOccupancy = 90,
                           predictedAvailable = 1, confidence = 0.8, trend = STABLE \<rparr>],
          confidence_p = 0.85, generatedAt = 84600000,
          factors = \<lparr> dayOfWeek = ''Thursday'', timeOfDay = ''Evening'',
                      specialEvents = [], weather = ''Clear'' \<rparr>,
          recommendation = ''High demand expected around 0:30 AM. Consider arriving earlier for better availability.'' \<rparr>)"
    by (simp add: getPrediction_def getLotById_def getSpacesByLotId_def dbA_def
        generateRecommendation_def dayNames_def busySpaces_def toString.simps padStart_def eval_defs)
  from C10_overall_confidence [OF e] e show ?thesis by simp
qed

section \<open>Validation of the horizon by the route\<close>

lemma parseInt_undefined: "parseInt ''undefined'' = None"
  by (simp add: parseInt_def isWhiteSpace_def isDigit_def digitValue_def)

lemma parseInt_zero: "parseInt ''0'' = Some 0"
  by (simp add: parseInt_def isWhiteSpace_def isDigit_def digitValue_def)

lemma predictionRoute_rejects:
  assumes "parseInt s = Some n" and "n \<noteq> 0" and "n < 1 \<or> n > 12"
  shows "predictionRoute z db tRead now random lid (Some s)
         = (\<lparr> httpStatus = 400, success = False, data = None,
              errorCode = Some ''VALIDATION_ERROR'' \<rparr>, [])"
  using assms by (simp add: predictionRoute_def)

lemma predictionRoute_accepts:
  assumes "parseInt s = Some n" and "1 \<le> n" and "n \<le> 12"
  shows "snd (predictionRoute z db tRead now random lid (Some s)) = [n]"
  using assms by (simp add: predictionRoute_def split: sum.splits option.splits)

lemma predictionRoute_default:
  "snd (predictionRoute z db tRead now random lid None) = [3]"
  by (simp add: predictionRoute_def parseInt_undefined split: sum.splits option.splits)

lemma predictionRoute_zero:
  "predictionRoute z db tRead now random lid (Some ''0'')
   = predictionRoute z db tRead now random lid None"
  by (simp add: predictionRoute_def parseInt_undefined parseInt_zero)

lemma digit_cases:
  assumes "d < (10::nat)"
  obtains "d = 0" | "d = 1" | "d = 2" | "d = 3" | "d = 4" | "d = 5" | "d = 6" | "d = 7"
    | "d = 8" | "d = 9"
  using assms by atomize_elim arith

lemma digit_char:
  assumes "d < 10"
  shows "digitValue (''0123456789'' ! d) = Some d"
    and "\<not> isWhiteSpace (''0123456789'' ! d)"
    and "''0123456789'' ! d \<notin> {CHR ''-'', CHR ''+'', CHR ''x'', CHR ''X''}"
  using assms by (cases d rule: digit_cases; simp add: digitValue_def isWhiteSpace_def)+

lemma toString_digits: "c \<in> set (toString n) \<Longrightarrow> \<exists>d<10. c = ''0123456789'' ! d"
proof (induction n rule: toString.induct)
  case (1 n)
  show ?case
  proof (cases "n < 10")
    case True
    then show ?thesis using "1.prems" by (auto simp add: toString.simps [of n])
  next
    case False
    from False "1.prems" consider "c \<in> set (toString (n div 10))"
      | "c = ''0123456789'' ! (n mod 10)"
      by (auto simp add: toString.simps [of n])
    then show ?thesis
    proof cases
      case 1
      then show ?thesis using False "1.IH" by simp
    next
      case 2
      moreover have "n mod 10 < 10" by simp
      ultimately show ?thesis by blast
    qed
  qed
qed

lemma toString_nonempty: "toString n \<noteq> []"
  by (simp add: toString.simps [of n])

lemma toString_value:
  "foldl (\<lambda>acc c. acc * 10 + the (digitValue c)) 0 (toString n) = n"
proof (induction n rule: toString.induct)
  case (1 n)
  show ?case
  proof (cases "n < 10")
    case True
    then show ?thesis by (simp add: toString.simps [of n] digit_char(1))
  next
    case False
    have "n mod 10 < 10" by simp
    then have "digitValue (''0123456789'' ! (n mod 10)) = Some (n mod 10)"
      by (rule digit_char(1))
    then show ?thesis
      using False "1.IH" by (simp add: toString.simps [of n])
  qed
qed

lemma parseInt_toString:
  shows "parseInt (toString m) = Some (int m)"
    and "parseInt (CHR ''-'' # toString m) = Some (- int m)"
proof -
  let ?S = "toString m"
  have digits: "\<And>c. c \<in> set ?S \<Longrightarrow> isDigit 10 c \<and> \<not> isWhiteSpace c
                  \<and> c \<notin> {CHR ''-'', CHR ''+'', CHR ''x'', CHR ''X''}"
    using toString_digits digit_char by (fastforce simp add: isDigit_def)
  have ne: "?S \<noteq> []" by (rule toString_nonempty)
  then have hd_in: "hd ?S \<in> set ?S" by simp
  have "CHR ''x'' \<notin> set (take 2 ?S)" "CHR ''X'' \<notin> set (take 2 ?S)"
    using digits in_set_takeD by fastforce+
  then have nohex: "take 2 ?S \<noteq> ''0x''" "take 2 ?S \<noteq> ''0X''" by auto
  have all: "takeWhile (isDigit 10) ?S = ?S"
    using digits by (simp add: takeWhile_eq_all_conv)
  have drop: "dropWhile isWhiteSpace ?S = ?S"
    using ne hd_in digits by (cases ?S) auto
  have hd: "hd ?S \<noteq> CHR ''-''" "hd ?S \<noteq> CHR ''+''" using digits hd_in by auto
  have minus: "\<not> isWhiteSpace CHR ''-''" by (simp add: isWhiteSpace_def)
  show "parseInt ?S = Some (int m)"
    by (simp add: parseInt_def Let_def drop hd nohex all ne toString_value)
  show "parseInt (CHR ''-'' # ?S) = Some (- int m)"
    by (simp add: parseInt_def Let_def minus nohex all ne toString_value)
qed

lemma parseInt_showInt: "parseInt (showInt n) = Some n"
proof (cases "n < 0")
  case True
  then show ?thesis using parseInt_toString(2) [of "nat (- n)"] by (simp add: showInt_def)
next
  case False
  then show ?thesis using parseInt_toString(1) [of "nat n"] by (simp add: showInt_def)
qed

text \<open>
  Every integer other than 0 that lies outside [1, 12] is rejected with status 400 before
  the prediction engine is called, and an integer of the range is passed on as it is.
\<close>

lemma predictionRoute_integer:
  assumes "n \<noteq> 0" and "n < 1 \<or> n > 12"
  shows "predictionRoute z db tRead now random lid (Some (showInt n))
         = (\<lparr> httpStatus = 400, success = False, data = None,
              errorCode = Some ''VALIDATION_ERROR'' \<rparr>, [])"
  using predictionRoute_rejects [OF parseInt_showInt assms] .

lemma predictionRoute_in_range:
  assumes "1 \<le> n" and "n \<le> 12"
  shows "snd (predictionRoute z db tRead now random lid (Some (showInt n))) = [n]"
  using predictionRoute_accepts [OF parseInt_showInt assms] .

text \<open>
  Claim C6 at \<open>hours=0\<close>. The integer 0 lies outside [1, 12], but \<open>parseInt('0') || 3\<close> is 3:
  the handler answers 200 and calls the prediction engine with a horizon of 3.
\<close>

theorem C6_hours_zero:
  "httpStatus (fst (predictionRoute UTC (dbA []) 0 1800000 (draws [0.5, 0.5, 0.5]) ''lot-1''
                      (Some ''0''))) = 200
   \<and> snd (predictionRoute UTC (dbA []) 0 1800000 (draws [0.5, 0.5, 0.5]) ''lot-1'' (Some ''0''))
     = [3]"
  by (simp add: predictionRoute_def parseInt_def isWhiteSpace_def isDigit_def digitValue_def
      getPrediction_def getLotById_def getSpacesByLotId_def dbA_def generateRecommendation_def
      eval_defs)

end
